theory Spec2Isabelle
  imports Complex_Main "HOL-Library.Stream"
begin

section \<open>Data model of \<open>torchsample/transforms/tensor_transforms.py\<close>\<close>

text \<open>
  The exceptions the transforms can raise, as values. \<open>RuntimeError\<close> stands for the
  failures of the tensor library itself (an index out of range in \<open>index_select\<close>),
  \<open>UnboundLocalError\<close> for a local variable read before assignment.
\<close>

datatype error =
    TypeError | ValueError | AttributeError | IndexError | ZeroDivisionError
  | RuntimeError | UnboundLocalError

text \<open>
  A tensor (or numpy array) is a rectangular nest of numbers: \<open>Scalar\<close> is a
  zero-dimensional value, \<open>Arr\<close> lists the sub-tensors along the leading axis.
  Elements are idealised as real numbers. The tensor library of the source has no
  axes of extent zero in front of other axes, and neither has the nest.
\<close>

datatype tensor = Scalar real | Arr "tensor list"

text \<open>
  The Python values that flow through a pipeline: \<open>None\<close>, a tensor, or a tuple.
\<close>

datatype pyval = PNone | PTensor tensor | PTuple "pyval list"

text \<open>
  The random source (Python's \<open>random\<close> module and the tensor library's generator)
  is a tape of naturals; every draw reads entries from the front of the tape.
\<close>

type_synonym rng = "nat stream"

text \<open>
  A transform unit is a Python callable: it receives the positional arguments and the
  state of the world and gives back a value or an exception, and the new state.
\<close>

type_synonym 'w transform = "pyval list \<Rightarrow> 'w \<Rightarrow> (error + pyval) \<times> 'w"

subsection \<open>Tensor primitives\<close>

fun tshape :: "tensor \<Rightarrow> nat list" where
  "tshape (Scalar r) = []"
| "tshape (Arr []) = [0]"
| "tshape (Arr (t # ts)) = Suc (length ts) # tshape t"

definition tdim :: "tensor \<Rightarrow> nat" where
  "tdim t = length (tshape t)"

text \<open>\<open>has_shape s t\<close>: the nest \<open>t\<close> is rectangular with extents \<open>s\<close>.\<close>

fun has_shape :: "nat list \<Rightarrow> tensor \<Rightarrow> bool" where
  "has_shape [] (Scalar r) = True"
| "has_shape (n # ns) (Arr ts) = (length ts = n \<and> list_all (has_shape ns) ts)"
| "has_shape [] (Arr ts) = False"
| "has_shape (n # ns) (Scalar r) = False"

text \<open>\<open>x.size(i)\<close> for a non-negative axis number; an axis that does not exist raises.\<close>

definition tsize :: "tensor \<Rightarrow> nat \<Rightarrow> error + int" where
  "tsize t i = (if i < tdim t then Inr (int (tshape t ! i)) else Inl RuntimeError)"

fun flatten :: "tensor \<Rightarrow> real list" where
  "flatten (Scalar r) = [r]"
| "flatten (Arr ts) = concat (map flatten ts)"

fun tmap :: "(real \<Rightarrow> real) \<Rightarrow> tensor \<Rightarrow> tensor" where
  "tmap f (Scalar r) = Scalar (f r)"
| "tmap f (Arr ts) = Arr (map (tmap f) ts)"

fun zeros :: "nat list \<Rightarrow> tensor" where
  "zeros [] = Scalar 0"
| "zeros (n # ns) = Arr (replicate n (zeros ns))"

text \<open>
  Python's \<open>xs[a:b]\<close> on a sequence: a negative bound counts from the end, and both
  bounds are clipped to the sequence.
\<close>

definition py_slice :: "int \<Rightarrow> int \<Rightarrow> 'a list \<Rightarrow> 'a list" where
  "py_slice a b xs =
     (let n = int (length xs);
          lo = (if a < 0 then max (a + n) 0 else min a n);
          hi = (if b < 0 then max (b + n) 0 else min b n)
      in take (nat (hi - lo)) (drop (nat lo) xs))"

text \<open>
  \<open>x[s0, s1, ...]\<close> with one entry per leading axis: \<open>None\<close> is the full slice
  \<open>:\<close>, \<open>Some (a, b)\<close> the slice \<open>a:b\<close>.
\<close>

fun slice_nd :: "(int \<times> int) option list \<Rightarrow> tensor \<Rightarrow> tensor" where
  "slice_nd [] t = t"
| "slice_nd (s # ss) (Scalar r) = Scalar r"
| "slice_nd (s # ss) (Arr ts) =
     Arr (case s of None \<Rightarrow> map (slice_nd ss) ts
          | Some (a, b) \<Rightarrow> py_slice a b (map (slice_nd ss) ts))"

text \<open>
  \<open>x[:, a:b, c:d]\<close>: three subscripts need three axes; a value that is not a tensor
  cannot be subscripted.
\<close>

definition getitem3 :: "pyval \<Rightarrow> int \<Rightarrow> int \<Rightarrow> int \<Rightarrow> int \<Rightarrow> error + tensor" where
  "getitem3 v a b c d =
     (case v of
        PTensor t \<Rightarrow>
          if tdim t < 3 then Inl IndexError
          else Inr (slice_nd [None, Some (a, b), Some (c, d)] t)
      | _ \<Rightarrow> Inl TypeError)"

text \<open>A subscript \<open>xs[i]\<close> on a configured tuple or list, for \<open>i \<ge> 0\<close>.\<close>

definition py_index :: "'a list \<Rightarrow> nat \<Rightarrow> error + 'a" where
  "py_index xs i = (if i < length xs then Inr (xs ! i) else Inl IndexError)"

text \<open>Calling a tensor method on a value: only tensors have the methods.\<close>

definition as_tensor :: "pyval \<Rightarrow> error + tensor" where
  "as_tensor v = (case v of PTensor t \<Rightarrow> Inr t | _ \<Rightarrow> Inl AttributeError)"

text \<open>Sequencing of computations that may raise.\<close>

definition bindE :: "error + 'a \<Rightarrow> ('a \<Rightarrow> error + 'b) \<Rightarrow> error + 'b" where
  "bindE m f = (case m of Inl e \<Rightarrow> Inl e | Inr v \<Rightarrow> f v)"

text \<open>
  The parameter list \<open>(self, x, y=None)\<close>: one or two positional arguments, the second
  defaulting to \<open>None\<close>. The parameter list \<open>(self, x, y)\<close> has no default.
\<close>

definition args_x_yNone :: "pyval list \<Rightarrow> error + pyval \<times> pyval" where
  "args_x_yNone args =
     (case args of [x] \<Rightarrow> Inr (x, PNone) | [x, y] \<Rightarrow> Inr (x, y) | _ \<Rightarrow> Inl TypeError)"

definition args_x_y :: "pyval list \<Rightarrow> error + pyval \<times> pyval" where
  "args_x_y args = (case args of [x, y] \<Rightarrow> Inr (x, y) | _ \<Rightarrow> Inl TypeError)"

text \<open>
  The assignment \<open>x, y = v\<close>: a tuple of two is taken apart, a tensor is iterated
  along its leading axis, \<open>None\<close> is not iterable; any other number of items raises.
\<close>

definition unpack2 :: "pyval \<Rightarrow> error + pyval \<times> pyval" where
  "unpack2 v =
     (case v of
        PTuple [a, b] \<Rightarrow> Inr (a, b)
      | PTuple _ \<Rightarrow> Inl ValueError
      | PTensor (Arr [a, b]) \<Rightarrow> Inr (PTensor a, PTensor b)
      | PTensor (Arr _) \<Rightarrow> Inl ValueError
      | PTensor (Scalar _) \<Rightarrow> Inl TypeError
      | PNone \<Rightarrow> Inl TypeError)"

subsection \<open>Compose\<close>

text \<open>
  \<^verbatim>\<open>
  def __call__(self, x, y=None):
      if y is not None:
          for t in self.transforms:
              x, y = t(x, y)
          return x, y
      else:
          for t in self.transforms:
              x = t(x)
          return x
  \<close>
\<close>

fun Compose_loop2 :: "'w transform list \<Rightarrow> pyval \<Rightarrow> pyval \<Rightarrow> 'w \<Rightarrow> (error + pyval) \<times> 'w" where
  "Compose_loop2 [] x y w = (Inr (PTuple [x, y]), w)"
| "Compose_loop2 (t # ts) x y w =
     (case t [x, y] w of
        (Inl e, w') \<Rightarrow> (Inl e, w')
      | (Inr v, w') \<Rightarrow>
          (case unpack2 v of
             Inl e \<Rightarrow> (Inl e, w')
           | Inr (x', y') \<Rightarrow> Compose_loop2 ts x' y' w'))"

fun Compose_loop1 :: "'w transform list \<Rightarrow> pyval \<Rightarrow> 'w \<Rightarrow> (error + pyval) \<times> 'w" where
  "Compose_loop1 [] x w = (Inr x, w)"
| "Compose_loop1 (t # ts) x w =
     (case t [x] w of
        (Inl e, w') \<Rightarrow> (Inl e, w')
      | (Inr v, w') \<Rightarrow> Compose_loop1 ts v w')"

definition Compose_call :: "'w transform list \<Rightarrow> 'w transform" where
  "Compose_call transforms args w =
     (case args_x_yNone args of
        Inl e \<Rightarrow> (Inl e, w)
      | Inr (x, y) \<Rightarrow>
          if y \<noteq> PNone then Compose_loop2 transforms x y w
          else Compose_loop1 transforms x w)"

subsection \<open>The random source\<close>

text \<open>
  \<open>random.randint(a, b)\<close>: an integer of the inclusive range, chosen by the next
  entry of the tape; an empty range raises and reads nothing.
\<close>

definition randint :: "int \<Rightarrow> int \<Rightarrow> rng \<Rightarrow> (error + int) \<times> rng" where
  "randint a b g =
     (if b < a then (Inl ValueError, g)
      else (Inr (a + int (shd g mod nat (b - a + 1))), stl g))"

text \<open>
  \<open>th.randperm(n)\<close>: a permutation of \<open>0, ..., n - 1\<close>; each entry of the tape picks
  the next index out of those still left.
\<close>

fun draw_perm :: "nat \<Rightarrow> nat list \<Rightarrow> rng \<Rightarrow> nat list \<times> rng" where
  "draw_perm 0 pool g = ([], g)"
| "draw_perm (Suc k) pool g =
     (if pool = [] then ([], g)
      else let i = shd g mod length pool;
               (rest, g') = draw_perm k (take i pool @ drop (Suc i) pool) (stl g)
           in (pool ! i # rest, g'))"

definition randperm :: "nat \<Rightarrow> rng \<Rightarrow> nat list \<times> rng" where
  "randperm n g = draw_perm n [0..<n] g"

subsection \<open>ToCuda\<close>

text \<open>
  \<open>x.cuda(device)\<close> moves a tensor to a device and leaves its values as they are;
  which devices exist is outside the model.
\<close>

definition cuda :: "nat \<Rightarrow> pyval \<Rightarrow> error + pyval" where
  "cuda device v = (case v of PTensor t \<Rightarrow> Inr (PTensor t) | _ \<Rightarrow> Inl AttributeError)"

text \<open>
  \<^verbatim>\<open>
  def __call__(self, x, y):
      x = x.cuda(self.device)
      if y is not None:
          y = y.cuda(self.device)
          return x, y
      else:
          return x
  \<close>
\<close>

definition ToCuda_call :: "nat \<Rightarrow> 'w transform" where
  "ToCuda_call device args w =
     (bindE (args_x_y args) (\<lambda>(x, y).
      bindE (cuda device x) (\<lambda>x'.
        if y \<noteq> PNone then bindE (cuda device y) (\<lambda>y'. Inr (PTuple [x', y']))
        else Inr x')), w)"

subsection \<open>RandomOrder\<close>

text \<open>\<open>t.index_select(0, order)\<close>: the sub-tensors of the leading axis named by \<open>order\<close>.\<close>

definition index_select0 :: "tensor \<Rightarrow> nat list \<Rightarrow> error + tensor" where
  "index_select0 t order =
     (case t of
        Scalar r \<Rightarrow> Inl RuntimeError
      | Arr ts \<Rightarrow>
          if list_all (\<lambda>i. i < length ts) order then Inr (Arr (map (\<lambda>i. ts ! i) order))
          else Inl RuntimeError)"

text \<open>
  \<^verbatim>\<open>
  def __call__(self, x, y=None):
      order = th.randperm(x.dim())
      x = x.index_select(0, order)
      if y is not None:
          y = y.index_select(0, order)
      return x, y
  \<close>
\<close>

definition RandomOrder_call :: "rng transform" where
  "RandomOrder_call args g =
     (case args_x_yNone args of
        Inl e \<Rightarrow> (Inl e, g)
      | Inr (x, y) \<Rightarrow>
          (case as_tensor x of
             Inl e \<Rightarrow> (Inl e, g)
           | Inr tx \<Rightarrow>
               (let (order, g') = randperm (tdim tx) g
                in (bindE (index_select0 tx order) (\<lambda>x'.
                    if y \<noteq> PNone then
                      bindE (as_tensor y) (\<lambda>ty.
                      bindE (index_select0 ty order) (\<lambda>y'.
                        Inr (PTuple [PTensor x', PTensor y'])))
                    else Inr (PTuple [PTensor x', y])), g'))))"

subsection \<open>RangeNormalize\<close>

record RangeNormalize =
  min_range :: real
  max_range :: real
  fixed_min :: "real option"
  fixed_max :: "real option"

text \<open>\<open>th.min(v)\<close> and \<open>th.max(v)\<close>: the least and the greatest element of a tensor.\<close>

definition th_min :: "pyval \<Rightarrow> error + real" where
  "th_min v =
     (case v of
        PTensor t \<Rightarrow> (case flatten t of [] \<Rightarrow> Inl RuntimeError | r # rs \<Rightarrow> Inr (fold min rs r))
      | _ \<Rightarrow> Inl TypeError)"

definition th_max :: "pyval \<Rightarrow> error + real" where
  "th_max v =
     (case v of
        PTensor t \<Rightarrow> (case flatten t of [] \<Rightarrow> Inl RuntimeError | r # rs \<Rightarrow> Inr (fold max rs r))
      | _ \<Rightarrow> Inl TypeError)"

text \<open>Python's division of two numbers raises on a zero divisor.\<close>

definition py_div :: "real \<Rightarrow> real \<Rightarrow> error + real" where
  "py_div a b = (if b = 0 then Inl ZeroDivisionError else Inr (a / b))"

text \<open>\<open>v.mul(a).add(b)\<close>\<close>

definition mul_add :: "real \<Rightarrow> real \<Rightarrow> pyval \<Rightarrow> error + tensor" where
  "mul_add a b v = bindE (as_tensor v) (\<lambda>t. Inr (tmap (\<lambda>r. r * a + b) t))"

text \<open>
  \<^verbatim>\<open>
  def __call__(self, x, y=None):
      if self.fixed_min is not None:
          min_val = self.fixed_min
      else:
          min_val = th.min(x)
      if self.fixed_max is not None:
          max_val = self.fixed_max
      else:
          max_val = th.max(x)
      if min_val == max_val:
          min_val += 1e-07

      a = (self.max_range - self.min_range) / (max_val - min_val)
      b = self.max_range - a * max_val
      x_norm = x.mul(a).add(b)
      if y is None:
          return x_norm
      else:
          min_val = th.min(y)
          max_val = th.max(y)
          a = (self.max_range - self.min_range) / (max_val - min_val)
          b = self.max_range - a * max_val
          y_norm = y.mul(a).add(b)
          return x_norm, y_norm
  \<close>
\<close>

definition RangeNormalize_call :: "RangeNormalize \<Rightarrow> pyval list \<Rightarrow> error + pyval" where
  "RangeNormalize_call self args =
     bindE (args_x_yNone args) (\<lambda>(x, y).
     bindE (case fixed_min self of Some m \<Rightarrow> Inr m | None \<Rightarrow> th_min x) (\<lambda>min_val0.
     bindE (case fixed_max self of Some m \<Rightarrow> Inr m | None \<Rightarrow> th_max x) (\<lambda>max_val.
     let min_val = (if min_val0 = max_val then min_val0 + 1 / 10000000 else min_val0) in
     bindE (py_div (max_range self - min_range self) (max_val - min_val)) (\<lambda>a.
     let b = max_range self - a * max_val in
     bindE (mul_add a b x) (\<lambda>x_norm.
       if y = PNone then Inr (PTensor x_norm)
       else
         bindE (th_min y) (\<lambda>min_val.
         bindE (th_max y) (\<lambda>max_val.
         bindE (py_div (max_range self - min_range self) (max_val - min_val)) (\<lambda>a.
         let b = max_range self - a * max_val in
         bindE (mul_add a b y) (\<lambda>y_norm.
           Inr (PTuple [PTensor x_norm, PTensor y_norm]))))))))))"

subsection \<open>RandomCrop\<close>

text \<open>\<open>v.size(i)\<close> on a value.\<close>

definition size_of :: "pyval \<Rightarrow> nat \<Rightarrow> error + int" where
  "size_of v i = bindE (as_tensor v) (\<lambda>t. tsize t i)"

text \<open>
  \<^verbatim>\<open>
  def __call__(self, x, y=None):
      h_idx = random.randint(0,x.size(1)-self.crop_size[0])
      w_idx = random.randint(0,x.size(2)-self.crop_size[1])
      x = x[:, h_idx:(h_idx+self.crop_size[0]),w_idx:(w_idx+self.crop_size[1])]
      if y is not None:
          y = y[:, h_idx:(h_idx+self.crop_size[0]),w_idx:(w_idx+self.crop_size[1])]
          return x, y
      else:
          return x
  \<close>
\<close>

definition RandomCrop_call :: "int list \<Rightarrow> rng transform" where
  "RandomCrop_call crop_size args g =
     (case args_x_yNone args of
        Inl e \<Rightarrow> (Inl e, g)
      | Inr (x, y) \<Rightarrow>
          (case bindE (size_of x 1) (\<lambda>h. bindE (py_index crop_size 0) (\<lambda>c0. Inr (h - c0))) of
             Inl e \<Rightarrow> (Inl e, g)
           | Inr h_hi \<Rightarrow>
               (case randint 0 h_hi g of
                  (Inl e, g1) \<Rightarrow> (Inl e, g1)
                | (Inr h_idx, g1) \<Rightarrow>
                    (case bindE (size_of x 2) (\<lambda>w. bindE (py_index crop_size 1) (\<lambda>c1. Inr (w - c1))) of
                       Inl e \<Rightarrow> (Inl e, g1)
                     | Inr w_hi \<Rightarrow>
                         (case randint 0 w_hi g1 of
                            (Inl e, g2) \<Rightarrow> (Inl e, g2)
                          | (Inr w_idx, g2) \<Rightarrow>
                              (bindE (py_index crop_size 0) (\<lambda>c0.
                               bindE (py_index crop_size 1) (\<lambda>c1.
                               bindE (getitem3 x h_idx (h_idx + c0) w_idx (w_idx + c1)) (\<lambda>x'.
                                 if y \<noteq> PNone then
                                   bindE (getitem3 y h_idx (h_idx + c0) w_idx (w_idx + c1)) (\<lambda>y'.
                                     Inr (PTuple [PTensor x', PTensor y']))
                                 else Inr (PTensor x')))), g2))))))"

subsection \<open>SpecialCrop\<close>

record SpecialCrop =
  crop_size :: "int list"
  crop_type :: int

text \<open>
  \<^verbatim>\<open>
  def __init__(self, crop_size, crop_type=0):
      if crop_type not in {0, 1, 2, 3, 4}:
          raise ValueError('crop_type must be in {0, 1, 2, 3, 4}')
      self.crop_size = crop_size
      self.crop_type = crop_type
  \<close>
\<close>

definition SpecialCrop_init :: "int list \<Rightarrow> int \<Rightarrow> error + SpecialCrop" where
  "SpecialCrop_init cs ct =
     (if ct \<notin> {0, 1, 2, 3, 4} then Inl ValueError
      else Inr \<lparr>crop_size = cs, crop_type = ct\<rparr>)"

text \<open>
  The index ranges \<open>[[r0, r1], [c0, c1]]\<close> that \<open>__call__\<close> computes, in the order of
  its \<open>if\<close>/\<open>elif\<close> chain. \<open>.../2.\<close> is a division of reals, \<open>math.ceil\<close> and
  \<open>math.floor\<close> round it. When no branch applies, \<open>indices\<close> was never assigned.
\<close>

definition SpecialCrop_indices :: "SpecialCrop \<Rightarrow> pyval \<Rightarrow> error + (int \<times> int) \<times> (int \<times> int)" where
  "SpecialCrop_indices self x =
     (if crop_type self = 0 then
        bindE (size_of x 1) (\<lambda>h.
        bindE (py_index (crop_size self) 0) (\<lambda>c0.
        let x_diff = real_of_int (h - c0) / 2 in
        bindE (size_of x 2) (\<lambda>w.
        bindE (py_index (crop_size self) 1) (\<lambda>c1.
        let y_diff = real_of_int (w - c1) / 2 in
          Inr ((\<lceil>x_diff\<rceil>, h - \<lfloor>x_diff\<rfloor>), (\<lceil>y_diff\<rceil>, w - \<lfloor>y_diff\<rfloor>))))))
      else if crop_type self = 1 then
        bindE (py_index (crop_size self) 0) (\<lambda>c0.
        bindE (py_index (crop_size self) 1) (\<lambda>c1.
          Inr ((0, c0), (0, c1))))
      else if crop_type self = 2 then
        bindE (py_index (crop_size self) 0) (\<lambda>c0.
        bindE (size_of x 2) (\<lambda>w.
        bindE (py_index (crop_size self) 1) (\<lambda>c1.
          Inr ((0, c0), (w - c1, w)))))
      else if crop_type self = 3 then
        bindE (size_of x 1) (\<lambda>h.
        bindE (py_index (crop_size self) 0) (\<lambda>c0.
        bindE (size_of x 2) (\<lambda>w.
        bindE (py_index (crop_size self) 1) (\<lambda>c1.
          Inr ((h - c0, h), (w - c1, w))))))
      else if crop_type self = 4 then
        bindE (size_of x 1) (\<lambda>h.
        bindE (py_index (crop_size self) 0) (\<lambda>c0.
        bindE (py_index (crop_size self) 1) (\<lambda>c1.
          Inr ((h - c0, h), (0, c1)))))
      else Inl UnboundLocalError)"

text \<open>
  \<^verbatim>\<open>
      x = x[:,indices[0][0]:indices[0][1],indices[1][0]:indices[1][1]]

      if y is not None:
          y = y[:,indices[0][0]:indices[0][1],indices[1][0]:indices[1][1]]
          return x, y
      else:
          return x
  \<close>
\<close>

definition SpecialCrop_call :: "SpecialCrop \<Rightarrow> pyval list \<Rightarrow> error + pyval" where
  "SpecialCrop_call self args =
     bindE (args_x_yNone args) (\<lambda>(x, y).
     bindE (SpecialCrop_indices self x) (\<lambda>((r0, r1), (c0, c1)).
     bindE (getitem3 x r0 r1 c0 c1) (\<lambda>x'.
       if y \<noteq> PNone then
         bindE (getitem3 y r0 r1 c0 c1) (\<lambda>y'. Inr (PTuple [PTensor x', PTensor y']))
       else Inr (PTensor x'))))"

subsection \<open>Pad\<close>

text \<open>
  Padding with zeros: \<open>(before, after)\<close> for each axis, outermost first. The blocks
  of zeros put around the leading axis have the shape of the padded sub-tensors.
\<close>

fun pad_nd :: "(nat \<times> nat) list \<Rightarrow> tensor \<Rightarrow> tensor" where
  "pad_nd [] t = t"
| "pad_nd (p # ps) (Scalar r) = Scalar r"
| "pad_nd (p # ps) (Arr ts) =
     (let z = zeros (map (\<lambda>((b, a), d). b + d + a) (zip ps (tl (tshape (Arr ts)))))
      in Arr (replicate (fst p) z @ map (pad_nd ps) ts @ replicate (snd p) z))"

text \<open>
  \<open>np.pad(t, pad_width, mode='constant')\<close>: one pair per axis, or a single pair for
  all axes; any other number of pairs and a negative width raise.
\<close>

definition np_pad :: "tensor \<Rightarrow> (int \<times> int) list \<Rightarrow> error + tensor" where
  "np_pad t pad_width =
     (if list_ex (\<lambda>(b, a). b < 0 \<or> a < 0) pad_width then Inl ValueError
      else
        let ps = map (\<lambda>(b, a). (nat b, nat a)) pad_width in
        if length ps = tdim t then Inr (pad_nd ps t)
        else if length ps = 1 then Inr (pad_nd (replicate (tdim t) (hd ps)) t)
        else Inl ValueError)"

text \<open>
  \<open>pad_size\<close> is the configured \<open>self.size\<close>.
  \<^verbatim>\<open>
  shape_diffs = [int(np.ceil((i_s - d_s))) for d_s,i_s in zip(x.shape,self.size)]
  shape_diffs = np.maximum(shape_diffs,0)
  pad_sizes = [(int(np.ceil(s/2.)),int(np.floor(s/2.))) for s in shape_diffs]
  \<close>
\<close>

definition Pad_sizes :: "int list \<Rightarrow> nat list \<Rightarrow> (int \<times> int) list" where
  "Pad_sizes pad_size x_shape =
     (let shape_diffs = map (\<lambda>(d_s, i_s). \<lceil>real_of_int (i_s - int d_s)\<rceil>) (zip x_shape pad_size);
          shape_diffs = map (\<lambda>s. max s 0) shape_diffs
      in map (\<lambda>s. (\<lceil>real_of_int s / 2\<rceil>, \<lfloor>real_of_int s / 2\<rfloor>)) shape_diffs)"

text \<open>
  \<^verbatim>\<open>
  def __call__(self, x, y=None):
      x = x.numpy()
      ...
      x = np.pad(x, pad_sizes, mode='constant')
      if y is not None:
          y = y.numpy()
          y = np.pad(y, pad_sizes, mode='constant')
          return th.from_numpy(x), th.from_numpy(y)
      else:
          return th.from_numpy(x)
  \<close>
\<close>

definition Pad_call :: "int list \<Rightarrow> pyval list \<Rightarrow> error + pyval" where
  "Pad_call pad_size args =
     bindE (args_x_yNone args) (\<lambda>(x, y).
     bindE (as_tensor x) (\<lambda>tx.
     let pad_sizes = Pad_sizes pad_size (tshape tx) in
     bindE (np_pad tx pad_sizes) (\<lambda>x'.
       if y \<noteq> PNone then
         bindE (as_tensor y) (\<lambda>ty.
         bindE (np_pad ty pad_sizes) (\<lambda>y'.
           Inr (PTuple [PTensor x', PTensor y'])))
       else Inr (PTensor x'))))"

subsection \<open>TypeCast\<close>

text \<open>
  The tensor classes of the module \<open>th\<close>, and the attribute lookup \<open>th.<name>\<close> for
  them: a name the module does not have raises.
\<close>

datatype th_type =
  ByteTensor | CharTensor | ShortTensor | IntTensor | LongTensor | FloatTensor | DoubleTensor

definition th_attr :: "string \<Rightarrow> error + th_type" where
  "th_attr name =
     (if name = ''ByteTensor'' then Inr ByteTensor
      else if name = ''CharTensor'' then Inr CharTensor
      else if name = ''ShortTensor'' then Inr ShortTensor
      else if name = ''IntTensor'' then Inr IntTensor
      else if name = ''LongTensor'' then Inr LongTensor
      else if name = ''FloatTensor'' then Inr FloatTensor
      else if name = ''DoubleTensor'' then Inr DoubleTensor
      else Inl AttributeError)"

text \<open>The configured \<open>dtype\<close>: a string tag or a tensor class.\<close>

datatype dtype = DStr string | DCls th_type

text \<open>
  \<^verbatim>\<open>
  def __init__(self, dtype='float'):
      if isinstance(dtype, str):
          if dtype == 'byte':
              dtype = th.ByteTensor
          elif dtype == 'double':
              dtype = th.DoubleTensor
          elif dtype == 'float':
              dtype = th.FloatTensor
          elif dtype == 'int':
              dtype = th.Intensor
          elif dtype == 'long':
              dtype = th.LongTensor
          elif dtype == 'short':
              dtype = th.ShortTensor
      self.dtype = dtype
  \<close>
  The result is the stored \<open>self.dtype\<close>.
\<close>

definition TypeCast_init :: "dtype \<Rightarrow> error + dtype" where
  "TypeCast_init dtype =
     (case dtype of
        DStr s \<Rightarrow>
          if s = ''byte'' then bindE (th_attr ''ByteTensor'') (\<lambda>c. Inr (DCls c))
          else if s = ''double'' then bindE (th_attr ''DoubleTensor'') (\<lambda>c. Inr (DCls c))
          else if s = ''float'' then bindE (th_attr ''FloatTensor'') (\<lambda>c. Inr (DCls c))
          else if s = ''int'' then bindE (th_attr ''Intensor'') (\<lambda>c. Inr (DCls c))
          else if s = ''long'' then bindE (th_attr ''LongTensor'') (\<lambda>c. Inr (DCls c))
          else if s = ''short'' then bindE (th_attr ''ShortTensor'') (\<lambda>c. Inr (DCls c))
          else Inr dtype
      | DCls c \<Rightarrow> Inr dtype)"

text \<open>
  \<^verbatim>\<open>
  def __call__(self, x, y=None):
      x = x.type(self.dtype)
      if y is not None:
          y = y.type(self.dtype)
          return x, y
      return x
  \<close>
  \<open>x.type\<close> is the tensor library's; it is the parameter \<open>tensor_type\<close>.
\<close>

definition TypeCast_call ::
  "(tensor \<Rightarrow> dtype \<Rightarrow> error + tensor) \<Rightarrow> dtype \<Rightarrow> pyval list \<Rightarrow> error + pyval" where
  "TypeCast_call tensor_type dtype args =
     bindE (args_x_yNone args) (\<lambda>(x, y).
     bindE (as_tensor x) (\<lambda>tx.
     bindE (tensor_type tx dtype) (\<lambda>x'.
       if y \<noteq> PNone then
         bindE (as_tensor y) (\<lambda>ty.
         bindE (tensor_type ty dtype) (\<lambda>y'.
           Inr (PTuple [PTensor x', PTensor y'])))
       else Inr (PTensor x'))))"

subsection \<open>The contract of a transform unit in two-stream mode\<close>

text \<open>
  A call \<open>t(x, y)\<close> honours the contract \<open>apply(x, y) -> (x', y')\<close> when it gives
  back a tuple of two or raises.
\<close>

definition returns_pair_or_raises :: "(error + pyval) \<times> 'w \<Rightarrow> bool" where
  "returns_pair_or_raises r =
     (case fst r of Inl e \<Rightarrow> True | Inr (PTuple [a, b]) \<Rightarrow> True | Inr _ \<Rightarrow> False)"

section \<open>Basic facts\<close>

lemma bindE_Inr: "bindE (Inr v) f = f v"
  by (simp add: bindE_def)

lemma bindE_Inl: "bindE (Inl e) f = Inl e"
  by (simp add: bindE_def)

lemma args_one: "args_x_yNone [x] = Inr (x, PNone)"
  by (simp add: args_x_yNone_def)

lemma args_two: "args_x_yNone [x, y] = Inr (x, y)"
  by (simp add: args_x_yNone_def)

lemma tshape_has_shape: "has_shape s t \<Longrightarrow> 0 \<notin> set s \<Longrightarrow> tshape t = s"
proof (induction s arbitrary: t)
  case Nil
  then show ?case by (cases t) simp_all
next
  case (Cons n ns)
  then obtain ts where t: "t = Arr ts" by (cases t) simp_all
  with Cons.prems have len: "length ts = n" and all: "list_all (has_shape ns) ts" and pos: "0 < n"
    by simp_all
  from len pos obtain u us where ts: "ts = u # us" by (cases ts) auto
  with all have "has_shape ns u" by simp
  with Cons.IH Cons.prems(2) have "tshape u = ns" by simp
  with t ts len show ?case by simp
qed

lemma tdim_has_shape: "has_shape s t \<Longrightarrow> 0 \<notin> set s \<Longrightarrow> tdim t = length s"
  by (simp add: tdim_def tshape_has_shape)

lemma floor_half: "\<lfloor>real_of_int d / 2\<rfloor> = d div 2"
  using floor_divide_of_int_eq [of d 2] by simp

lemma ceiling_half: "\<lceil>real_of_int d / 2\<rceil> = (d + 1) div 2"
proof -
  have "\<lceil>real_of_int d / 2\<rceil> = - \<lfloor>real_of_int (- d) / 2\<rfloor>"
    by (simp add: ceiling_def)
  also have "\<dots> = - ((- d) div 2)"
    by (simp only: floor_half)
  also have "\<dots> = (d + 1) div 2"
    by presburger
  finally show ?thesis .
qed

lemma py_slice_in_range:
  assumes "0 \<le> a" "a \<le> b" "b \<le> int (length xs)"
  shows "py_slice a b xs = take (nat (b - a)) (drop (nat a) xs)"
  using assms by (simp add: py_slice_def Let_def min_def)

lemma length_py_slice:
  assumes "0 \<le> a" "a \<le> b" "b \<le> int (length xs)"
  shows "length (py_slice a b xs) = nat (b - a)"
  using assms by (simp add: py_slice_in_range)

lemma set_py_slice: "set (py_slice a b xs) \<subseteq> set xs"
proof -
  have "set (take n (drop m xs)) \<subseteq> set xs" for n m
    by (meson set_drop_subset set_take_subset subset_trans)
  then show ?thesis by (simp add: py_slice_def Let_def)
qed

lemma nth_py_slice:
  assumes "0 \<le> a" "a \<le> b" "b \<le> int (length xs)" "i < nat (b - a)"
  shows "py_slice a b xs ! i = xs ! (nat a + i)"
  using assms by (simp add: py_slice_in_range)

lemma slice_row_shape:
  assumes "has_shape [w] row" "0 \<le> c0" "c0 \<le> c1" "c1 \<le> int w"
  shows "has_shape [nat (c1 - c0)] (slice_nd [Some (c0, c1)] row)"
proof -
  from assms(1) obtain els where row: "row = Arr els" and len: "length els = w"
    and all: "list_all (has_shape []) els"
    by (cases row) simp_all
  have m: "map (slice_nd []) els = els"
    by (induction els) simp_all
  have "set (py_slice c0 c1 els) \<subseteq> set els"
    by (rule set_py_slice)
  with all have "list_all (has_shape []) (py_slice c0 c1 els)"
    by (auto simp: list_all_iff)
  moreover from assms len have "length (py_slice c0 c1 els) = nat (c1 - c0)"
    by (simp add: length_py_slice)
  ultimately show ?thesis by (simp add: row m)
qed

lemma slice_plane_shape:
  assumes "has_shape [h, w] pl" "0 \<le> r0" "r0 \<le> r1" "r1 \<le> int h" "0 \<le> c0" "c0 \<le> c1" "c1 \<le> int w"
  shows "has_shape [nat (r1 - r0), nat (c1 - c0)] (slice_nd [Some (r0, r1), Some (c0, c1)] pl)"
proof -
  from assms(1) obtain rows where pl: "pl = Arr rows" and len: "length rows = h"
    and all: "list_all (has_shape [w]) rows"
    by (cases pl) simp_all
  let ?rows' = "map (slice_nd [Some (c0, c1)]) rows"
  from all assms have all': "list_all (has_shape [nat (c1 - c0)]) ?rows'"
    by (auto simp: list_all_iff slice_row_shape simp del: has_shape.simps)
  have "set (py_slice r0 r1 ?rows') \<subseteq> set ?rows'"
    by (rule set_py_slice)
  with all' have "list_all (has_shape [nat (c1 - c0)]) (py_slice r0 r1 ?rows')"
    by (auto simp: list_all_iff simp del: has_shape.simps)
  moreover from assms len have "length (py_slice r0 r1 ?rows') = nat (r1 - r0)"
    by (simp add: length_py_slice)
  ultimately show ?thesis by (simp add: pl)
qed

lemma slice_image_shape:
  assumes "has_shape [c, h, w] x" "0 \<le> r0" "r0 \<le> r1" "r1 \<le> int h" "0 \<le> c0" "c0 \<le> c1" "c1 \<le> int w"
  shows "has_shape [c, nat (r1 - r0), nat (c1 - c0)]
           (slice_nd [None, Some (r0, r1), Some (c0, c1)] x)"
proof -
  from assms(1) obtain pls where x: "x = Arr pls" and len: "length pls = c"
    and all: "list_all (has_shape [h, w]) pls"
    by (cases x) simp_all
  from all assms have "list_all (has_shape [nat (r1 - r0), nat (c1 - c0)])
      (map (slice_nd [Some (r0, r1), Some (c0, c1)]) pls)"
    by (auto simp: list_all_iff slice_plane_shape simp del: has_shape.simps slice_nd.simps)
  with len show ?thesis by (simp add: x)
qed

lemma getitem3_tensor:
  "3 \<le> tdim t \<Longrightarrow> getitem3 (PTensor t) a b c d = Inr (slice_nd [None, Some (a, b), Some (c, d)] t)"
  by (simp add: getitem3_def)

lemma size_of_has_shape:
  assumes "has_shape s t" "0 \<notin> set s" "i < length s"
  shows "size_of (PTensor t) i = Inr (int (s ! i))"
  using assms by (simp add: size_of_def as_tensor_def bindE_def tsize_def tdim_has_shape tshape_has_shape)


lemma has_shape_zeros: "has_shape s (zeros s)"
  by (induction s) (simp_all add: list_all_iff)

lemma unpack2_pair: "unpack2 (PTuple [a, b]) = Inr (a, b)"
  by (simp add: unpack2_def)

lemma returns_pair_or_raisesE:
  assumes "returns_pair_or_raises r"
  obtains e w where "r = (Inl e, w)" | a b w where "r = (Inr (PTuple [a, b]), w)"
proof (cases r)
  case (Pair v w)
  show ?thesis
  proof (cases v)
    case (Inl e)
    with Pair that(1) show ?thesis by simp
  next
    case (Inr p)
    with Pair assms obtain a b where "p = PTuple [a, b]"
      by (auto simp: returns_pair_or_raises_def split: pyval.splits list.splits)
    with Pair Inr that(2) show ?thesis by simp
  qed
qed

section \<open>Compose\<close>

text \<open>
  Claim C6. The composer built from the empty list of transforms gives back its input:
  in two-stream mode (\<open>y\<close> is not \<open>None\<close>) the pair \<open>(x, y)\<close>, in one-stream mode
  (\<open>y\<close> left out, or \<open>None\<close>) \<open>x\<close> alone; the state of the world is untouched.
\<close>

theorem Compose_empty_identity:
  "(y \<noteq> PNone \<longrightarrow> Compose_call [] [x, y] w = (Inr (PTuple [x, y]), w)) \<and>
   Compose_call [] [x] w = (Inr x, w) \<and>
   Compose_call [] [x, PNone] w = (Inr x, w)"
  by (simp add: Compose_call_def args_x_yNone_def)

theorem Compose_empty_identity_witness:
  "PTensor (Scalar 2) \<noteq> PNone \<and>
   Compose_call [] [PTensor (Scalar 1), PTensor (Scalar 2)] (0::nat) =
     (Inr (PTuple [PTensor (Scalar 1), PTensor (Scalar 2)]), 0)"
  using Compose_empty_identity [of "PTensor (Scalar 2)" "PTensor (Scalar 1)" "0::nat"] by simp

text \<open>
  Claim C5. With \<open>y\<close> present, the composer of \<open>[T1, T2]\<close> feeds the output pair of
  \<open>T1\<close> to \<open>T2\<close> and gives back what \<open>T2\<close> gives back, in the state \<open>T2\<close> leaves;
  an exception of \<open>T1\<close> ends the call before \<open>T2\<close> runs.
\<close>

theorem Compose_two_units:
  assumes "y \<noteq> PNone"
  shows "(T1 [x, y] w = (Inl e, w1) \<longrightarrow> Compose_call [T1, T2] [x, y] w = (Inl e, w1)) \<and>
         (T1 [x, y] w = (Inr (PTuple [x1, y1]), w1) \<longrightarrow> returns_pair_or_raises (T2 [x1, y1] w1) \<longrightarrow>
            Compose_call [T1, T2] [x, y] w = T2 [x1, y1] w1)"
proof (intro conjI impI)
  assume "T1 [x, y] w = (Inl e, w1)"
  with assms show "Compose_call [T1, T2] [x, y] w = (Inl e, w1)"
    by (simp add: Compose_call_def args_two)
next
  assume t1: "T1 [x, y] w = (Inr (PTuple [x1, y1]), w1)"
    and t2: "returns_pair_or_raises (T2 [x1, y1] w1)"
  from assms t1 have step: "Compose_call [T1, T2] [x, y] w = Compose_loop2 [T2] x1 y1 w1"
    by (simp add: Compose_call_def args_two unpack2_pair)
  from t2 show "Compose_call [T1, T2] [x, y] w = T2 [x1, y1] w1"
  proof (cases rule: returns_pair_or_raisesE)
    case (1 e' w2)
    with step show ?thesis by simp
  next
    case (2 a b w2)
    with step show ?thesis by (simp add: unpack2_pair)
  qed
qed


theorem Compose_two_units_witness:
  "PTensor (Scalar 2) \<noteq> PNone \<and>
   ToCuda_call 0 [PTensor (Scalar 1), PTensor (Scalar 2)] (0::nat) =
     (Inr (PTuple [PTensor (Scalar 1), PTensor (Scalar 2)]), 0) \<and>
   returns_pair_or_raises (ToCuda_call 1 [PTensor (Scalar 1), PTensor (Scalar 2)] (0::nat)) \<and>
   Compose_call [ToCuda_call 0, ToCuda_call 1] [PTensor (Scalar 1), PTensor (Scalar 2)] (0::nat) =
     ToCuda_call 1 [PTensor (Scalar 1), PTensor (Scalar 2)] 0 \<and>
   ToCuda_call 0 [PTuple [], PTensor (Scalar 2)] (0::nat) = (Inl AttributeError, 0) \<and>
   Compose_call [ToCuda_call 0, ToCuda_call 1] [PTuple [], PTensor (Scalar 2)] (0::nat) =
     (Inl AttributeError, 0)"
proof -
  have ne: "PTensor (Scalar 2) \<noteq> PNone" by simp
  have t1: "ToCuda_call 0 [PTensor (Scalar 1), PTensor (Scalar 2)] (0::nat) =
     (Inr (PTuple [PTensor (Scalar 1), PTensor (Scalar 2)]), 0)"
    by (simp add: ToCuda_call_def args_x_y_def cuda_def bindE_def)
  have t2: "returns_pair_or_raises (ToCuda_call 1 [PTensor (Scalar 1), PTensor (Scalar 2)] (0::nat))"
    by (simp add: returns_pair_or_raises_def ToCuda_call_def args_x_y_def cuda_def bindE_def)
  have t3: "ToCuda_call 0 [PTuple [], PTensor (Scalar 2)] (0::nat) = (Inl AttributeError, 0)"
    by (simp add: ToCuda_call_def args_x_y_def cuda_def bindE_def)
  from Compose_two_units [OF ne, of "ToCuda_call 0" "PTensor (Scalar 1)" "0::nat" _ _ "ToCuda_call 1"
      "PTensor (Scalar 1)" "PTensor (Scalar 2)"] t1 t2
  have c1: "Compose_call [ToCuda_call 0, ToCuda_call 1] [PTensor (Scalar 1), PTensor (Scalar 2)] (0::nat) =
     ToCuda_call 1 [PTensor (Scalar 1), PTensor (Scalar 2)] 0"
    by blast
  from Compose_two_units [OF ne, of "ToCuda_call 0" "PTuple []" "0::nat" AttributeError 0 "ToCuda_call 1"] t3
  have c2: "Compose_call [ToCuda_call 0, ToCuda_call 1] [PTuple [], PTensor (Scalar 2)] (0::nat) =
     (Inl AttributeError, 0)"
    by blast
  from ne t1 t2 t3 c1 c2 show ?thesis by blast
qed

text \<open>
  The transforms whose calls are written out here honour the contract in two-stream mode.
\<close>

lemma ToCuda_two_stream_contract:
  "y \<noteq> PNone \<Longrightarrow> returns_pair_or_raises (ToCuda_call device [x, y] w)"
  by (auto simp: returns_pair_or_raises_def ToCuda_call_def args_x_y_def cuda_def bindE_def
      split: pyval.splits)

lemma RandomOrder_two_stream_contract:
  "y \<noteq> PNone \<Longrightarrow> returns_pair_or_raises (RandomOrder_call [x, y] g)"
  by (auto simp: returns_pair_or_raises_def RandomOrder_call_def args_two as_tensor_def bindE_def
      split: pyval.splits sum.splits prod.splits)

lemma RandomCrop_two_stream_contract:
  "y \<noteq> PNone \<Longrightarrow> returns_pair_or_raises (RandomCrop_call cs [x, y] g)"
  by (auto simp: returns_pair_or_raises_def RandomCrop_call_def args_two bindE_def
      split: sum.splits prod.splits)

section \<open>One-stream mode\<close>

text \<open>
  Claim C1 says that in one-stream mode no transform raises for lack of \<open>y\<close> and none
  gives back a pair. The code does otherwise: \<open>ToCuda\<close> called with \<open>x\<close> alone raises
  \<open>TypeError\<close> (also inside a pipeline), and \<open>RandomOrder\<close> called with \<open>x\<close> alone
  gives back the tuple \<open>(x', None)\<close>, which a pipeline hands on as its result.
\<close>

theorem one_stream_mode_broken:
  "ToCuda_call device [x] w = (Inl TypeError, w) \<and>
   Compose_call [ToCuda_call device] [x] w = (Inl TypeError, w) \<and>
   RandomOrder_call [PTensor (Arr [Arr [Scalar 1, Scalar 2], Arr [Scalar 3, Scalar 4]])] (sconst 0) =
     (Inr (PTuple [PTensor (Arr [Arr [Scalar 1, Scalar 2], Arr [Scalar 3, Scalar 4]]), PNone]), sconst 0) \<and>
   Compose_call [RandomOrder_call] [PTensor (Arr [Arr [Scalar 1, Scalar 2], Arr [Scalar 3, Scalar 4]])] (sconst 0) =
     (Inr (PTuple [PTensor (Arr [Arr [Scalar 1, Scalar 2], Arr [Scalar 3, Scalar 4]]), PNone]), sconst 0)"
proof -
  have a: "ToCuda_call device [x] w = (Inl TypeError, w)"
    by (simp add: ToCuda_call_def args_x_y_def bindE_def)
  have b: "Compose_call [ToCuda_call device] [x] w = (Inl TypeError, w)"
    by (simp add: Compose_call_def args_one a)
  have d: "tdim (Arr [Arr [Scalar 1, Scalar 2], Arr [Scalar 3, Scalar 4]]) = 2"
    by (simp add: tdim_def)
  have p: "randperm 2 (sconst 0) = ([0, 1], sconst 0)"
    by (simp add: randperm_def numeral_2_eq_2 upt_rec)
  have c: "RandomOrder_call [PTensor (Arr [Arr [Scalar 1, Scalar 2], Arr [Scalar 3, Scalar 4]])] (sconst 0) =
     (Inr (PTuple [PTensor (Arr [Arr [Scalar 1, Scalar 2], Arr [Scalar 3, Scalar 4]]), PNone]), sconst 0)"
    by (simp add: RandomOrder_call_def args_one as_tensor_def d p index_select0_def bindE_def)
  have e: "Compose_call [RandomOrder_call] [PTensor (Arr [Arr [Scalar 1, Scalar 2], Arr [Scalar 3, Scalar 4]])] (sconst 0) =
     (Inr (PTuple [PTensor (Arr [Arr [Scalar 1, Scalar 2], Arr [Scalar 3, Scalar 4]]), PNone]), sconst 0)"
    by (simp add: Compose_call_def args_one c)
  from a b c e show ?thesis by blast
qed

section \<open>RandomOrder\<close>

lemma RandomOrder_call_one:
  assumes "randperm (tdim t) g = (order, g')"
  shows "RandomOrder_call [PTensor t] g =
     (bindE (index_select0 t order) (\<lambda>x'. Inr (PTuple [PTensor x', PNone])), g')"
  using assms by (simp add: RandomOrder_call_def args_one as_tensor_def)

lemma RandomOrder_call_two:
  assumes "randperm (tdim t) g = (order, g')"
  shows "RandomOrder_call [PTensor t, PTensor u] g =
     (bindE (index_select0 t order) (\<lambda>x'.
      bindE (index_select0 u order) (\<lambda>y'. Inr (PTuple [PTensor x', PTensor y']))), g')"
  using assms by (simp add: RandomOrder_call_def args_two as_tensor_def bindE_Inr)

lemma randperm_3_example: "randperm 3 (4 ## sconst 0) = ([1, 0, 2], sconst 0)"
proof -
  have u: "[0..<3] = [0, 1, 2]"
    by (simp add: upt_rec)
  have m: "(4::nat) mod Suc (Suc (Suc 0)) = 1"
    by simp
  have dp: "draw_perm (Suc (Suc (Suc 0))) [0, 1, 2] (4 ## sconst 0) = ([1, 0, 2], sconst 0)"
    by (simp add: m)
  have "randperm 3 (4 ## sconst 0) = draw_perm 3 [0, 1, 2] (4 ## sconst 0)"
    by (simp only: randperm_def u)
  also have "\<dots> = draw_perm (Suc (Suc (Suc 0))) [0, 1, 2] (4 ## sconst 0)"
    by (simp only: numeral_3_eq_3)
  finally show ?thesis
    using dp by simp
qed

text \<open>
  Claim C2 says that the permutation drawn by \<open>RandomOrder\<close> is one of the indices of
  the leading axis. The code draws a permutation of \<open>0, ..., x.dim() - 1\<close>, the axis
  numbers: of four channels of a three-axis tensor only the first three come back, and
  two channels make \<open>index_select\<close> fail.
\<close>

theorem RandomOrder_draws_over_dim:
  "RandomOrder_call
     [PTensor (Arr [Arr [Arr [Scalar 1]], Arr [Arr [Scalar 2]], Arr [Arr [Scalar 3]], Arr [Arr [Scalar 4]]])]
     (4 ## sconst 0) =
     (Inr (PTuple [PTensor (Arr [Arr [Arr [Scalar 2]], Arr [Arr [Scalar 1]], Arr [Arr [Scalar 3]]]), PNone]),
      sconst 0) \<and>
   RandomOrder_call [PTensor (Arr [Arr [Arr [Scalar 1]], Arr [Arr [Scalar 2]]])] (4 ## sconst 0) =
     (Inl RuntimeError, sconst 0)"
proof -
  have d4: "tdim (Arr [Arr [Arr [Scalar 1]], Arr [Arr [Scalar 2]], Arr [Arr [Scalar 3]], Arr [Arr [Scalar 4]]]) = 3"
    by (simp add: tdim_def)
  have d2: "tdim (Arr [Arr [Arr [Scalar 1]], Arr [Arr [Scalar 2]]]) = 3"
    by (simp add: tdim_def)
  have s4: "index_select0 (Arr [Arr [Arr [Scalar 1]], Arr [Arr [Scalar 2]], Arr [Arr [Scalar 3]], Arr [Arr [Scalar 4]]])
      [1, 0, 2] = Inr (Arr [Arr [Arr [Scalar 2]], Arr [Arr [Scalar 1]], Arr [Arr [Scalar 3]]])"
    by (simp add: index_select0_def)
  have s2: "index_select0 (Arr [Arr [Arr [Scalar 1]], Arr [Arr [Scalar 2]]]) [1, 0, 2] = Inl RuntimeError"
    by (simp add: index_select0_def)
  have a: "RandomOrder_call
     [PTensor (Arr [Arr [Arr [Scalar 1]], Arr [Arr [Scalar 2]], Arr [Arr [Scalar 3]], Arr [Arr [Scalar 4]]])]
     (4 ## sconst 0) =
     (Inr (PTuple [PTensor (Arr [Arr [Arr [Scalar 2]], Arr [Arr [Scalar 1]], Arr [Arr [Scalar 3]]]), PNone]),
      sconst 0)"
    by (simp only: RandomOrder_call_one [OF randperm_3_example [folded d4]] s4 bindE_Inr)
  have b: "RandomOrder_call [PTensor (Arr [Arr [Arr [Scalar 1]], Arr [Arr [Scalar 2]]])] (4 ## sconst 0) =
     (Inl RuntimeError, sconst 0)"
    by (simp only: RandomOrder_call_one [OF randperm_3_example [folded d2]] s2 bindE_Inl)
  from a b show ?thesis by blast
qed

section \<open>RangeNormalize\<close>

text \<open>
  The \<open>x\<close> path is guarded: a call with \<open>x\<close> alone never divides by zero. And the
  normalised \<open>y\<close> depends on \<open>y\<close> and the target range only, not on \<open>x\<close> and not on
  the fixed minimum and maximum.
\<close>

lemma th_errors:
  "th_min v \<noteq> Inl ZeroDivisionError" "th_max v \<noteq> Inl ZeroDivisionError"
  "mul_add a b v \<noteq> Inl ZeroDivisionError"
  by (auto simp: th_min_def th_max_def mul_add_def as_tensor_def bindE_def
      split: pyval.splits list.splits)

lemma RangeNormalize_x_guarded:
  "RangeNormalize_call self [x] \<noteq> Inl ZeroDivisionError"
proof -
  show ?thesis
    using th_errors [where v = x]
    by (auto simp: RangeNormalize_call_def args_one bindE_def Let_def py_div_def
        split: option.splits sum.splits if_splits)
qed

lemma RangeNormalize_y_own_statistics:
  assumes "y \<noteq> PNone"
    and "RangeNormalize_call self [x, y] = Inr (PTuple [xn, yn])"
    and "RangeNormalize_call self' [x', y] = Inr (PTuple [xn', yn'])"
    and "min_range self' = min_range self" "max_range self' = max_range self"
  shows "yn' = yn"
  using assms
  by (auto simp: RangeNormalize_call_def args_two bindE_def Let_def
      split: option.splits sum.splits if_splits)


text \<open>
  Claim C4 says that \<open>y\<close> is normalised with the configured fixed minimum and maximum
  when they are set. The code always takes the observed minimum and maximum of \<open>y\<close>:
  with \<open>fixed_min = 0\<close> and \<open>fixed_max = 255\<close> the target \<open>[0, 128]\<close> becomes
  \<open>[0, 1]\<close>, not \<open>[0, 128/255]\<close>, while \<open>128\<close> in \<open>x\<close> becomes \<open>128/255\<close>.
\<close>

theorem RangeNormalize_y_ignores_fixed:
  "RangeNormalize_call \<lparr>min_range = 0, max_range = 1, fixed_min = Some 0, fixed_max = Some 255\<rparr>
     [PTensor (Arr [Scalar 0, Scalar 128, Scalar 255]), PTensor (Arr [Scalar 0, Scalar 128])] =
   Inr (PTuple [PTensor (Arr [Scalar 0, Scalar (128 / 255), Scalar 1]),
                PTensor (Arr [Scalar 0, Scalar 1])])"
  by (simp add: RangeNormalize_call_def args_x_yNone_def th_min_def th_max_def py_div_def
      mul_add_def as_tensor_def bindE_def)

section \<open>TypeCast\<close>

text \<open>
  Claim C10. Constructing \<open>TypeCast\<close> with the tag \<open>'int'\<close> raises \<open>AttributeError\<close>
  (the module has no attribute \<open>Intensor\<close>). A string that is none of the six tags is
  stored as it is, and it is the application that fails, with the error of the tensor
  library's \<open>type\<close> method, when that method rejects the string.
\<close>

theorem TypeCast_int_tag_raises:
  "TypeCast_init (DStr ''int'') = Inl AttributeError \<and>
   (s \<notin> {''byte'', ''double'', ''float'', ''int'', ''long'', ''short''} \<longrightarrow>
      TypeCast_init (DStr s) = Inr (DStr s) \<and>
      (tensor_type x (DStr s) = Inl e \<longrightarrow>
         TypeCast_call tensor_type (DStr s) [PTensor x] = Inl e \<and>
         TypeCast_call tensor_type (DStr s) [PTensor x, y] = Inl e))"
  by (simp add: TypeCast_init_def th_attr_def TypeCast_call_def args_x_yNone_def as_tensor_def bindE_def)

theorem TypeCast_int_tag_raises_witness:
  "''foo'' \<notin> {''byte'', ''double'', ''float'', ''int'', ''long'', ''short''} \<and>
   (\<lambda>t d. case d of DStr n \<Rightarrow> Inl ValueError | DCls c \<Rightarrow> Inr t) (Scalar 1) (DStr ''foo'') = Inl ValueError \<and>
   TypeCast_init (DStr ''foo'') = Inr (DStr ''foo'') \<and>
   TypeCast_call (\<lambda>t d. case d of DStr n \<Rightarrow> Inl ValueError | DCls c \<Rightarrow> Inr t) (DStr ''foo'')
     [PTensor (Scalar 1)] = Inl ValueError"
  using TypeCast_int_tag_raises [of "''foo''" "\<lambda>t d. case d of DStr n \<Rightarrow> Inl ValueError | DCls c \<Rightarrow> Inr t"
      "Scalar 1" ValueError]
  by simp

section \<open>SpecialCrop\<close>

lemma SpecialCrop_indices_center:
  assumes "has_shape [c, h, w] x" "0 < c" "0 < h" "0 < w"
  shows "SpecialCrop_indices \<lparr>crop_size = [ch, cw], crop_type = 0\<rparr> (PTensor x) =
     Inr ((\<lceil>real_of_int (int h - ch) / 2\<rceil>, int h - \<lfloor>real_of_int (int h - ch) / 2\<rfloor>),
          (\<lceil>real_of_int (int w - cw) / 2\<rceil>, int w - \<lfloor>real_of_int (int w - cw) / 2\<rfloor>))"
proof -
  from assms have s1: "size_of (PTensor x) (Suc 0) = Inr (int h)" and s2: "size_of (PTensor x) 2 = Inr (int w)"
    using size_of_has_shape [of "[c, h, w]" x] by simp_all
  show ?thesis
    by (simp add: SpecialCrop_indices_def s1 s2 py_index_def bindE_Inr Let_def)
qed

text \<open>
  Claim C8. For \<open>x\<close> of shape \<open>(c, h, w)\<close> the center crop takes rows
  \<open>ceil((h - ch)/2) : h - floor((h - ch)/2)\<close> and columns
  \<open>ceil((w - cw)/2) : w - floor((w - cw)/2)\<close>, of \<open>x\<close> and of \<open>y\<close> alike; the ranges
  have the configured lengths, and for \<open>h = w = 10\<close> and crop size \<open>(4, 4)\<close> they are
  \<open>3:7\<close> and \<open>3:7\<close>.
\<close>

theorem SpecialCrop_center_crop:
  assumes "has_shape [c, h, w] x" "0 < c" "0 < h" "0 < w"
  shows
    "let self = \<lparr>crop_size = [ch, cw], crop_type = 0\<rparr>;
         r0 = \<lceil>real_of_int (int h - ch) / 2\<rceil>; r1 = int h - \<lfloor>real_of_int (int h - ch) / 2\<rfloor>;
         c0 = \<lceil>real_of_int (int w - cw) / 2\<rceil>; c1 = int w - \<lfloor>real_of_int (int w - cw) / 2\<rfloor>
     in SpecialCrop_indices self (PTensor x) = Inr ((r0, r1), (c0, c1)) \<and>
        SpecialCrop_call self [PTensor x] =
          Inr (PTensor (slice_nd [None, Some (r0, r1), Some (c0, c1)] x)) \<and>
        (3 \<le> tdim y \<longrightarrow>
           SpecialCrop_call self [PTensor x, PTensor y] =
             Inr (PTuple [PTensor (slice_nd [None, Some (r0, r1), Some (c0, c1)] x),
                          PTensor (slice_nd [None, Some (r0, r1), Some (c0, c1)] y)])) \<and>
        r1 - r0 = ch \<and> c1 - c0 = cw \<and>
        (0 \<le> ch \<and> ch \<le> int h \<and> 0 \<le> cw \<and> cw \<le> int w \<longrightarrow>
           has_shape [c, nat ch, nat cw] (slice_nd [None, Some (r0, r1), Some (c0, c1)] x)) \<and>
        (h = 10 \<and> w = 10 \<and> ch = 4 \<and> cw = 4 \<longrightarrow> (r0, r1) = (3, 7) \<and> (c0, c1) = (3, 7))"
proof -
  define r0 where "r0 = \<lceil>real_of_int (int h - ch) / 2\<rceil>"
  define r1 where "r1 = int h - \<lfloor>real_of_int (int h - ch) / 2\<rfloor>"
  define c0 where "c0 = \<lceil>real_of_int (int w - cw) / 2\<rceil>"
  define c1 where "c1 = int w - \<lfloor>real_of_int (int w - cw) / 2\<rfloor>"
  let ?self = "\<lparr>crop_size = [ch, cw], crop_type = 0\<rparr>"
  let ?sl = "slice_nd [None, Some (r0, r1), Some (c0, c1)]"
  have r0: "r0 = (int h - ch + 1) div 2" and r1: "r1 = int h - (int h - ch) div 2"
    and c0: "c0 = (int w - cw + 1) div 2" and c1: "c1 = int w - (int w - cw) div 2"
    by (simp_all only: r0_def r1_def c0_def c1_def ceiling_half floor_half)
  from assms have dim: "tdim x = 3"
    using tdim_has_shape [of "[c, h, w]" x] by simp
  have ind: "SpecialCrop_indices ?self (PTensor x) = Inr ((r0, r1), (c0, c1))"
    unfolding r0_def r1_def c0_def c1_def by (rule SpecialCrop_indices_center [OF assms])
  have one: "SpecialCrop_call ?self [PTensor x] = Inr (PTensor (?sl x))"
    by (simp add: SpecialCrop_call_def args_one ind bindE_Inr getitem3_tensor dim)
  have two: "SpecialCrop_call ?self [PTensor x, PTensor y] = Inr (PTuple [PTensor (?sl x), PTensor (?sl y)])"
    if "3 \<le> tdim y"
    using that by (simp add: SpecialCrop_call_def args_two ind bindE_Inr getitem3_tensor dim)
  have dr: "r1 - r0 = ch" and dc: "c1 - c0 = cw"
    unfolding r0 r1 c0 c1 by presburger+
  have shp: "has_shape [c, nat ch, nat cw] (?sl x)"
    if "0 \<le> ch \<and> ch \<le> int h \<and> 0 \<le> cw \<and> cw \<le> int w"
  proof -
    from that have "0 \<le> r0" "r0 \<le> r1" "r1 \<le> int h" "0 \<le> c0" "c0 \<le> c1" "c1 \<le> int w"
      unfolding r0 r1 c0 c1 by presburger+
    from slice_image_shape [OF assms(1) this] show ?thesis
      by (simp only: dr dc)
  qed
  have ex: "(r0, r1) = (3, 7) \<and> (c0, c1) = (3, 7)" if "h = 10 \<and> w = 10 \<and> ch = 4 \<and> cw = 4"
    using that by (simp add: r0 r1 c0 c1)
  from ind one two dr dc shp ex show ?thesis
    unfolding Let_def r0_def [symmetric] r1_def [symmetric] c0_def [symmetric] c1_def [symmetric]
    by blast
qed


theorem SpecialCrop_center_crop_witness:
  "has_shape [1, 10, 10] (zeros [1, 10, 10]) \<and> 3 \<le> tdim (zeros [2, 10, 10]) \<and>
   SpecialCrop_call \<lparr>crop_size = [4, 4], crop_type = 0\<rparr>
     [PTensor (zeros [1, 10, 10]), PTensor (zeros [2, 10, 10])] =
     Inr (PTuple [PTensor (slice_nd [None, Some (3, 7), Some (3, 7)] (zeros [1, 10, 10])),
                  PTensor (slice_nd [None, Some (3, 7), Some (3, 7)] (zeros [2, 10, 10]))]) \<and>
   has_shape [1, 4, 4] (slice_nd [None, Some (3, 7), Some (3, 7)] (zeros [1, 10, 10])) \<and>
   SpecialCrop_call \<lparr>crop_size = [2, 2], crop_type = 0\<rparr>
     [PTensor (Arr [Arr [Arr [Scalar 1, Scalar 2, Scalar 3],
                         Arr [Scalar 4, Scalar 5, Scalar 6],
                         Arr [Scalar 7, Scalar 8, Scalar 9]]])] =
     Inr (PTensor (Arr [Arr [Arr [Scalar 5, Scalar 6], Arr [Scalar 8, Scalar 9]]]))"
proof -
  have hx: "has_shape [1, 10, 10] (zeros [1, 10, 10])"
    by (rule has_shape_zeros)
  have "has_shape [2, 10, 10] (zeros [2, 10, 10])"
    by (rule has_shape_zeros)
  then have dy: "3 \<le> tdim (zeros [2, 10, 10])"
    using tdim_has_shape [of "[2, 10, 10]" "zeros [2, 10, 10]"] by simp
  have h3: "has_shape [1, 3, 3] (Arr [Arr [Arr [Scalar 1, Scalar 2, Scalar 3],
                         Arr [Scalar 4, Scalar 5, Scalar 6],
                         Arr [Scalar 7, Scalar 8, Scalar 9]]])"
    by simp
  have sl: "slice_nd [None, Some (1, 3), Some (1, 3)]
      (Arr [Arr [Arr [Scalar 1, Scalar 2, Scalar 3],
                 Arr [Scalar 4, Scalar 5, Scalar 6],
                 Arr [Scalar 7, Scalar 8, Scalar 9]]]) =
      Arr [Arr [Arr [Scalar 5, Scalar 6], Arr [Scalar 8, Scalar 9]]]"
    by (simp add: py_slice_def)
  from SpecialCrop_center_crop [OF hx, of 4 4 "zeros [2, 10, 10]"] dy
  have a: "SpecialCrop_call \<lparr>crop_size = [4, 4], crop_type = 0\<rparr>
     [PTensor (zeros [1, 10, 10]), PTensor (zeros [2, 10, 10])] =
     Inr (PTuple [PTensor (slice_nd [None, Some (3, 7), Some (3, 7)] (zeros [1, 10, 10])),
                  PTensor (slice_nd [None, Some (3, 7), Some (3, 7)] (zeros [2, 10, 10]))])"
    and b: "has_shape [1, 4, 4] (slice_nd [None, Some (3, 7), Some (3, 7)] (zeros [1, 10, 10]))"
    by (simp_all add: Let_def del: zeros.simps slice_nd.simps has_shape.simps)
  from SpecialCrop_center_crop [OF h3, of 2 2]
  have c: "SpecialCrop_call \<lparr>crop_size = [2, 2], crop_type = 0\<rparr>
     [PTensor (Arr [Arr [Arr [Scalar 1, Scalar 2, Scalar 3],
                         Arr [Scalar 4, Scalar 5, Scalar 6],
                         Arr [Scalar 7, Scalar 8, Scalar 9]]])] =
     Inr (PTensor (Arr [Arr [Arr [Scalar 5, Scalar 6], Arr [Scalar 8, Scalar 9]]]))"
    by (simp add: Let_def sl del: slice_nd.simps has_shape.simps)
  from hx dy a b c show ?thesis by blast
qed

section \<open>RandomCrop\<close>

lemma randint_value:
  "a \<le> b \<Longrightarrow> randint a b g = (Inr (a + int (shd g mod nat (b - a + 1))), stl g)"
  by (simp add: randint_def)

lemma randint_bounds:
  assumes "a \<le> b"
  shows "a \<le> a + int (shd g mod nat (b - a + 1)) \<and> a + int (shd g mod nat (b - a + 1)) \<le> b"
proof -
  from assms have "0 < nat (b - a + 1)" by simp
  then have "shd g mod nat (b - a + 1) < nat (b - a + 1)"
    by (rule mod_less_divisor)
  with assms show ?thesis by linarith
qed

lemma randint_onto:
  assumes "a \<le> k" "k \<le> b"
  shows "randint a b (nat (k - a) ## g) = (Inr k, g)"
proof -
  from assms have "nat (k - a) < nat (b - a + 1)" by linarith
  then have "nat (k - a) mod nat (b - a + 1) = nat (k - a)" by simp
  with assms show ?thesis by (simp add: randint_def)
qed

lemma RandomCrop_call_draws:
  assumes "has_shape [c, h, w] x" "0 < c" "0 < h" "0 < w"
    and "randint 0 (int h - ch) g = (Inr h_idx, g1)"
    and "randint 0 (int w - cw) g1 = (Inr w_idx, g2)"
  shows "RandomCrop_call [ch, cw] [PTensor x] g =
      (Inr (PTensor (slice_nd [None, Some (h_idx, h_idx + ch), Some (w_idx, w_idx + cw)] x)), g2)"
    and "3 \<le> tdim y \<Longrightarrow> RandomCrop_call [ch, cw] [PTensor x, PTensor y] g =
      (Inr (PTuple [PTensor (slice_nd [None, Some (h_idx, h_idx + ch), Some (w_idx, w_idx + cw)] x),
                    PTensor (slice_nd [None, Some (h_idx, h_idx + ch), Some (w_idx, w_idx + cw)] y)]), g2)"
proof -
  from assms have s1: "size_of (PTensor x) (Suc 0) = Inr (int h)" and s2: "size_of (PTensor x) 2 = Inr (int w)"
    using size_of_has_shape [of "[c, h, w]" x] by simp_all
  from assms have dim: "tdim x = 3"
    using tdim_has_shape [of "[c, h, w]" x] by simp
  show "RandomCrop_call [ch, cw] [PTensor x] g =
      (Inr (PTensor (slice_nd [None, Some (h_idx, h_idx + ch), Some (w_idx, w_idx + cw)] x)), g2)"
    by (simp add: RandomCrop_call_def args_one s1 s2 py_index_def bindE_Inr assms(5,6) getitem3_tensor dim)
  show "RandomCrop_call [ch, cw] [PTensor x, PTensor y] g =
      (Inr (PTuple [PTensor (slice_nd [None, Some (h_idx, h_idx + ch), Some (w_idx, w_idx + cw)] x),
                    PTensor (slice_nd [None, Some (h_idx, h_idx + ch), Some (w_idx, w_idx + cw)] y)]), g2)"
    if "3 \<le> tdim y"
    using that
    by (simp add: RandomCrop_call_def args_two s1 s2 py_index_def bindE_Inr assms(5,6) getitem3_tensor dim)
qed

text \<open>
  Claim C7. For \<open>x\<close> of shape \<open>(c, h, w)\<close> with \<open>ch \<le> h\<close> and \<open>cw \<le> w\<close>, random crop
  calls \<open>randint(0, h - ch)\<close> and then \<open>randint(0, w - cw)\<close>, once each whether or not
  \<open>y\<close> is there; the two offsets lie in these inclusive ranges, every pair of offsets
  in the ranges comes from some tape, and \<open>x\<close> and \<open>y\<close> are cut at the same offsets
  with the configured crop size.
\<close>

theorem RandomCrop_one_draw_per_axis:
  assumes "has_shape [c, h, w] x" "0 < c" "0 < h" "0 < w" "ch \<le> int h" "cw \<le> int w"
  shows
    "let h_idx = int (shd g mod nat (int h - ch + 1));
         w_idx = int (shd (stl g) mod nat (int w - cw + 1));
         box = [None, Some (h_idx, h_idx + ch), Some (w_idx, w_idx + cw)]
     in randint 0 (int h - ch) g = (Inr h_idx, stl g) \<and>
        randint 0 (int w - cw) (stl g) = (Inr w_idx, stl (stl g)) \<and>
        0 \<le> h_idx \<and> h_idx \<le> int h - ch \<and> 0 \<le> w_idx \<and> w_idx \<le> int w - cw \<and>
        RandomCrop_call [ch, cw] [PTensor x] g = (Inr (PTensor (slice_nd box x)), stl (stl g)) \<and>
        (3 \<le> tdim y \<longrightarrow>
           RandomCrop_call [ch, cw] [PTensor x, PTensor y] g =
             (Inr (PTuple [PTensor (slice_nd box x), PTensor (slice_nd box y)]), stl (stl g))) \<and>
        (0 \<le> ch \<and> 0 \<le> cw \<longrightarrow> has_shape [c, nat ch, nat cw] (slice_nd box x)) \<and>
        (0 \<le> i \<and> i \<le> int h - ch \<and> 0 \<le> j \<and> j \<le> int w - cw \<longrightarrow>
           RandomCrop_call [ch, cw] [PTensor x] (nat i ## nat j ## g) =
             (Inr (PTensor (slice_nd [None, Some (i, i + ch), Some (j, j + cw)] x)), g))"
proof -
  define h_idx where "h_idx = int (shd g mod nat (int h - ch + 1))"
  define w_idx where "w_idx = int (shd (stl g) mod nat (int w - cw + 1))"
  define box where "box = [None, Some (h_idx, h_idx + ch), Some (w_idx, w_idx + cw)]"
  from assms(5) have d1: "randint 0 (int h - ch) g = (Inr h_idx, stl g)"
    using randint_value [of 0 "int h - ch" g] by (simp add: h_idx_def)
  from assms(6) have d2: "randint 0 (int w - cw) (stl g) = (Inr w_idx, stl (stl g))"
    using randint_value [of 0 "int w - cw" "stl g"] by (simp add: w_idx_def)
  from assms(5) have bh: "0 \<le> h_idx \<and> h_idx \<le> int h - ch"
    using randint_bounds [of 0 "int h - ch" g] by (simp add: h_idx_def)
  from assms(6) have bw: "0 \<le> w_idx \<and> w_idx \<le> int w - cw"
    using randint_bounds [of 0 "int w - cw" "stl g"] by (simp add: w_idx_def)
  have one: "RandomCrop_call [ch, cw] [PTensor x] g = (Inr (PTensor (slice_nd box x)), stl (stl g))"
    unfolding box_def by (rule RandomCrop_call_draws(1) [OF assms(1-4) d1 d2])
  have two: "RandomCrop_call [ch, cw] [PTensor x, PTensor y] g =
      (Inr (PTuple [PTensor (slice_nd box x), PTensor (slice_nd box y)]), stl (stl g))"
    if "3 \<le> tdim y"
    unfolding box_def by (rule RandomCrop_call_draws(2) [OF assms(1-4) d1 d2 that])
  have shp: "has_shape [c, nat ch, nat cw] (slice_nd box x)" if "0 \<le> ch \<and> 0 \<le> cw"
  proof -
    from that bh bw have "0 \<le> h_idx" "h_idx \<le> h_idx + ch" "h_idx + ch \<le> int h"
      "0 \<le> w_idx" "w_idx \<le> w_idx + cw" "w_idx + cw \<le> int w"
      by simp_all
    from slice_image_shape [OF assms(1) this] show ?thesis
      by (simp add: box_def)
  qed
  have onto: "RandomCrop_call [ch, cw] [PTensor x] (nat i ## nat j ## g) =
      (Inr (PTensor (slice_nd [None, Some (i, i + ch), Some (j, j + cw)] x)), g)"
    if ij: "0 \<le> i \<and> i \<le> int h - ch \<and> 0 \<le> j \<and> j \<le> int w - cw"
  proof -
    from ij have e1: "randint 0 (int h - ch) (nat i ## nat j ## g) = (Inr i, nat j ## g)"
      using randint_onto [of 0 i "int h - ch" "nat j ## g"] by simp
    from ij have e2: "randint 0 (int w - cw) (nat j ## g) = (Inr j, g)"
      using randint_onto [of 0 j "int w - cw" g] by simp
    show ?thesis
      by (rule RandomCrop_call_draws(1) [OF assms(1-4) e1 e2])
  qed
  from d1 d2 bh bw one two shp onto show ?thesis
    unfolding Let_def h_idx_def [symmetric] w_idx_def [symmetric] box_def [symmetric]
    by blast
qed

theorem RandomCrop_one_draw_per_axis_witness:
  "has_shape [1, 3, 3] (Arr [Arr [Arr [Scalar 1, Scalar 2, Scalar 3],
                                  Arr [Scalar 4, Scalar 5, Scalar 6],
                                  Arr [Scalar 7, Scalar 8, Scalar 9]]]) \<and>
   (2::int) \<le> int 3 \<and>
   3 \<le> tdim (Arr [Arr [Arr [Scalar 10, Scalar 20, Scalar 30],
                        Arr [Scalar 40, Scalar 50, Scalar 60],
                        Arr [Scalar 70, Scalar 80, Scalar 90]]]) \<and>
   RandomCrop_call [2, 2]
     [PTensor (Arr [Arr [Arr [Scalar 1, Scalar 2, Scalar 3],
                         Arr [Scalar 4, Scalar 5, Scalar 6],
                         Arr [Scalar 7, Scalar 8, Scalar 9]]]),
      PTensor (Arr [Arr [Arr [Scalar 10, Scalar 20, Scalar 30],
                         Arr [Scalar 40, Scalar 50, Scalar 60],
                         Arr [Scalar 70, Scalar 80, Scalar 90]]])]
     (3 ## 2 ## sconst 0) =
     (Inr (PTuple [PTensor (Arr [Arr [Arr [Scalar 4, Scalar 5], Arr [Scalar 7, Scalar 8]]]),
                   PTensor (Arr [Arr [Arr [Scalar 40, Scalar 50], Arr [Scalar 70, Scalar 80]]])]),
      sconst 0)"
proof -
  let ?x = "Arr [Arr [Arr [Scalar 1, Scalar 2, Scalar 3],
                      Arr [Scalar 4, Scalar 5, Scalar 6],
                      Arr [Scalar 7, Scalar 8, Scalar 9]]]"
  let ?y = "Arr [Arr [Arr [Scalar 10, Scalar 20, Scalar 30],
                      Arr [Scalar 40, Scalar 50, Scalar 60],
                      Arr [Scalar 70, Scalar 80, Scalar 90]]]"
  have hx: "has_shape [1, 3, 3] ?x" by simp
  have le: "(2::int) \<le> int 3" by simp
  have dy: "3 \<le> tdim ?y" by (simp add: tdim_def)
  have m1: "(3::nat) mod 2 = 1" by simp
  have sx: "slice_nd [None, Some (1, 3), Some (0, 2)] ?x =
      Arr [Arr [Arr [Scalar 4, Scalar 5], Arr [Scalar 7, Scalar 8]]]"
    by (simp add: py_slice_def numeral_2_eq_2)
  have sy: "slice_nd [None, Some (1, 3), Some (0, 2)] ?y =
      Arr [Arr [Arr [Scalar 40, Scalar 50], Arr [Scalar 70, Scalar 80]]]"
    by (simp add: py_slice_def numeral_2_eq_2)
  from RandomCrop_one_draw_per_axis [OF hx _ _ _ le le, of "3 ## 2 ## sconst 0" ?y] dy
  have "RandomCrop_call [2, 2] [PTensor ?x, PTensor ?y] (3 ## 2 ## sconst 0) =
     (Inr (PTuple [PTensor (slice_nd [None, Some (1, 3), Some (0, 2)] ?x),
                   PTensor (slice_nd [None, Some (1, 3), Some (0, 2)] ?y)]), sconst 0)"
    by (simp add: Let_def m1 del: slice_nd.simps has_shape.simps)
  with hx le dy show ?thesis
    by (simp only: sx sy simp_thms)
qed

section \<open>Pad\<close>

lemma Pad_sizes_eq:
  "Pad_sizes pad_size s =
     map (\<lambda>(d, t). ((max (t - int d) 0 + 1) div 2, max (t - int d) 0 div 2)) (zip s pad_size)"
proof -
  have "Pad_sizes pad_size s =
      map (\<lambda>s. ((s + 1) div 2, s div 2))
        (map (\<lambda>s. max s 0) (map (\<lambda>(d_s, i_s). i_s - int d_s) (zip s pad_size)))"
    by (simp only: Pad_sizes_def Let_def ceiling_of_int ceiling_half floor_half)
  then show ?thesis
    by (simp add: split_def o_def)
qed

lemma Pad_sizes_nonneg: "\<not> list_ex (\<lambda>(b, a). b < 0 \<or> a < 0) (Pad_sizes pad_size s)"
  by (auto simp: Pad_sizes_eq list_ex_iff dest!: set_zip_leftD)

lemma length_Pad_sizes: "length (Pad_sizes pad_size s) = min (length s) (length pad_size)"
  by (simp add: Pad_sizes_eq)

lemma pad_nd_shape:
  "has_shape s x \<Longrightarrow> 0 \<notin> set s \<Longrightarrow> length ps = length s \<Longrightarrow>
     has_shape (map (\<lambda>((b, a), d). b + d + a) (zip ps s)) (pad_nd ps x)"
proof (induction ps arbitrary: s x)
  case Nil
  then show ?case by simp
next
  case (Cons p ps)
  from Cons.prems(3) obtain n ns where s: "s = n # ns" and lens: "length ps = length ns"
    by (cases s) simp_all
  from Cons.prems(1) s obtain ts where x: "x = Arr ts" and len: "length ts = n"
    and all: "list_all (has_shape ns) ts"
    by (cases x) simp_all
  from Cons.prems(1,2) have "tshape x = s"
    by (rule tshape_has_shape)
  with x s have tl: "tl (tshape (Arr ts)) = ns" by simp
  let ?s' = "map (\<lambda>((b, a), d). b + d + a) (zip ps ns)"
  have z: "has_shape ?s' (zeros ?s')"
    by (rule has_shape_zeros)
  from all Cons.prems(2) s lens have inner: "list_all (has_shape ?s') (map (pad_nd ps) ts)"
    by (auto simp: list_all_iff Cons.IH)
  obtain b a where p: "p = (b, a)" by (cases p)
  have "pad_nd (p # ps) (Arr ts) = Arr (replicate b (zeros ?s') @ map (pad_nd ps) ts @ replicate a (zeros ?s'))"
    by (simp only: pad_nd.simps tl Let_def p fst_conv snd_conv)
  moreover have "has_shape ((b + n + a) # ?s') (Arr (replicate b (zeros ?s') @ map (pad_nd ps) ts @ replicate a (zeros ?s')))"
    using z inner len by (auto simp: list_all_iff simp del: zeros.simps)
  ultimately show ?case
    by (simp add: x s p del: pad_nd.simps)
qed


lemma pad_extent_arith:
  "nat ((max (t - int d) 0 + 1) div 2) + d + nat (max (t - int d) 0 div 2) = max d (nat t)"
proof (cases "t \<le> int d")
  case True
  then have "max (t - int d) 0 = 0" and "max d (nat t) = d"
    by simp_all
  then show ?thesis by simp
next
  case False
  define m where "m = t - int d"
  with False have m: "0 < m" and t: "nat t = d + nat m"
    by simp_all
  have "nat ((m + 1) div 2) + nat (m div 2) = nat m"
    using m by (simp add: nat_add_distrib [symmetric])
  with m t show ?thesis
    by (simp add: m_def [symmetric] max_def)
qed

lemma pad_extents:
  assumes "length pad_size = length s"
  shows "map (\<lambda>((b, a), d). b + d + a)
           (zip (map (\<lambda>(d, t). (nat ((max (t - int d) 0 + 1) div 2), nat (max (t - int d) 0 div 2)))
                   (zip s pad_size)) s) =
         map (\<lambda>(d, t). max d (nat t)) (zip s pad_size)"
  using assms [symmetric]
proof (induction s pad_size rule: list_induct2)
  case Nil
  then show ?case by simp
next
  case (Cons d ds t ts)
  then show ?case by (simp add: pad_extent_arith)
qed

lemma zip_take_right: "zip xs (take (length xs) ys) = zip xs ys"
proof -
  have "zip xs (take (length xs) ys) = take (length xs) (zip xs ys)"
    by (simp add: take_zip)
  then show ?thesis by simp
qed

lemma np_pad_Pad_sizes:
  assumes "tdim t = length s" "length s \<le> length pad_size"
  shows "np_pad t (Pad_sizes pad_size s) =
     Inr (pad_nd (map (\<lambda>(d, t). (nat ((max (t - int d) 0 + 1) div 2), nat (max (t - int d) 0 div 2)))
                    (zip s pad_size)) t)"
proof -
  have "map (\<lambda>(b, a). (nat b, nat a)) (Pad_sizes pad_size s) =
      map (\<lambda>(d, t). (nat ((max (t - int d) 0 + 1) div 2), nat (max (t - int d) 0 div 2))) (zip s pad_size)"
    by (simp add: Pad_sizes_eq split_def o_def)
  moreover from assms have "length (map (\<lambda>(b, a). (nat b, nat a)) (Pad_sizes pad_size s)) = tdim t"
    by (simp add: length_Pad_sizes)
  ultimately show ?thesis
    by (simp only: np_pad_def Pad_sizes_nonneg if_False Let_def simp_thms if_True)
qed

text \<open>
  Claim C9. For \<open>x\<close> of shape \<open>s\<close> and a target size with an entry for every axis, \<open>Pad\<close>
  puts \<open>ceil(m/2)\<close> zeros before and \<open>floor(m/2)\<close> zeros after each axis, where
  \<open>m = max(target - extent, 0)\<close>: an axis already at or above its target gets
  \<open>(0, 0)\<close>, the result has the larger of extent and target on every axis, and the pad
  sizes computed from the shape of \<open>x\<close> are the ones applied to \<open>y\<close>. Shape
  \<open>(3, 5, 5)\<close> padded to \<open>(3, 8, 8)\<close> gets the pads \<open>(0,0), (2,1), (2,1)\<close> and the
  shape \<open>(3, 8, 8)\<close>.
\<close>

theorem Pad_symmetric_to_size:
  assumes "has_shape s x" "0 \<notin> set s" "length s \<le> length pad_size"
  shows
    "let pads = map (\<lambda>(d, t). (nat \<lceil>real_of_int (max (t - int d) 0) / 2\<rceil>,
                                 nat \<lfloor>real_of_int (max (t - int d) 0) / 2\<rfloor>)) (zip s pad_size)
     in Pad_call pad_size [PTensor x] = Inr (PTensor (pad_nd pads x)) \<and>
        (tdim y = length s \<longrightarrow>
           Pad_call pad_size [PTensor x, PTensor y] =
             Inr (PTuple [PTensor (pad_nd pads x), PTensor (pad_nd pads y)])) \<and>
        has_shape (map (\<lambda>(d, t). max d (nat t)) (zip s pad_size)) (pad_nd pads x) \<and>
        (i < length s \<and> pad_size ! i \<le> int (s ! i) \<longrightarrow> pads ! i = (0, 0)) \<and>
        (s = [3, 5, 5] \<and> pad_size = [3, 8, 8] \<longrightarrow>
           pads = [(0, 0), (2, 1), (2, 1)] \<and> has_shape [3, 8, 8] (pad_nd pads x))"
proof -
  define pads where "pads = map (\<lambda>(d, t). (nat \<lceil>real_of_int (max (t - int d) 0) / 2\<rceil>,
                                 nat \<lfloor>real_of_int (max (t - int d) 0) / 2\<rfloor>)) (zip s pad_size)"
  have pads: "pads = map (\<lambda>(d, t). (nat ((max (t - int d) 0 + 1) div 2), nat (max (t - int d) 0 div 2)))
      (zip s pad_size)"
    by (simp only: pads_def ceiling_half floor_half)
  from assms have sh: "tshape x = s" and dim: "tdim x = length s"
    by (simp_all add: tshape_has_shape tdim_has_shape)
  have px: "np_pad x (Pad_sizes pad_size s) = Inr (pad_nd pads x)"
    unfolding pads by (rule np_pad_Pad_sizes [OF dim assms(3)])
  have one: "Pad_call pad_size [PTensor x] = Inr (PTensor (pad_nd pads x))"
    by (simp add: Pad_call_def args_one as_tensor_def bindE_Inr sh px)
  have two: "Pad_call pad_size [PTensor x, PTensor y] =
      Inr (PTuple [PTensor (pad_nd pads x), PTensor (pad_nd pads y)])" if "tdim y = length s"
  proof -
    have "np_pad y (Pad_sizes pad_size s) = Inr (pad_nd pads y)"
      unfolding pads by (rule np_pad_Pad_sizes [OF that assms(3)])
    then show ?thesis
      by (simp add: Pad_call_def args_two as_tensor_def bindE_Inr sh px)
  qed
  from assms(3) have lp: "length pads = length s"
    by (simp add: pads)
  from assms(3) have "length (take (length s) pad_size) = length s"
    by simp
  from pad_extents [OF this]
  have "map (\<lambda>((b, a), d). b + d + a) (zip pads s) = map (\<lambda>(d, t). max d (nat t)) (zip s pad_size)"
    by (simp only: pads zip_take_right)
  with pad_nd_shape [OF assms(1,2) lp]
  have shp: "has_shape (map (\<lambda>(d, t). max d (nat t)) (zip s pad_size)) (pad_nd pads x)"
    by simp
  have zero: "pads ! i = (0, 0)" if "i < length s \<and> pad_size ! i \<le> int (s ! i)"
    using that assms(3) by (simp add: pads max_def)
  have ex: "pads = [(0, 0), (2, 1), (2, 1)] \<and> has_shape [3, 8, 8] (pad_nd pads x)"
    if "s = [3, 5, 5] \<and> pad_size = [3, 8, 8]"
  proof
    from that show "pads = [(0, 0), (2, 1), (2, 1)]"
      by (simp add: pads)
    from that shp show "has_shape [3, 8, 8] (pad_nd pads x)"
      by (simp del: has_shape.simps)
  qed
  from one two shp zero ex show ?thesis
    unfolding Let_def pads_def [symmetric] by blast
qed

theorem Pad_symmetric_to_size_witness:
  "has_shape [1, 2] (Arr [Arr [Scalar 1, Scalar 2]]) \<and> 0 \<notin> set [1, 2 :: nat] \<and>
   length [1, 2 :: nat] \<le> length [1, 5 :: int] \<and>
   tdim (Arr [Arr [Scalar 3, Scalar 4]]) = length [1, 2 :: nat] \<and>
   Pad_call [1, 5] [PTensor (Arr [Arr [Scalar 1, Scalar 2]]), PTensor (Arr [Arr [Scalar 3, Scalar 4]])] =
     Inr (PTuple [PTensor (Arr [Arr [Scalar 0, Scalar 0, Scalar 1, Scalar 2, Scalar 0]]),
                  PTensor (Arr [Arr [Scalar 0, Scalar 0, Scalar 3, Scalar 4, Scalar 0]])]) \<and>
   has_shape [3, 5, 5] (zeros [3, 5, 5]) \<and>
   Pad_call [3, 8, 8] [PTensor (zeros [3, 5, 5])] =
     Inr (PTensor (pad_nd [(0, 0), (2, 1), (2, 1)] (zeros [3, 5, 5]))) \<and>
   has_shape [3, 8, 8] (pad_nd [(0, 0), (2, 1), (2, 1)] (zeros [3, 5, 5]))"
proof -
  have h: "has_shape [1, 2] (Arr [Arr [Scalar 1, Scalar 2]])" by simp
  have z: "0 \<notin> set [1, 2 :: nat]" by simp
  have l: "length [1, 2 :: nat] \<le> length [1, 5 :: int]" by simp
  have d: "tdim (Arr [Arr [Scalar 3, Scalar 4]]) = length [1, 2 :: nat]"
    by (simp add: tdim_def)
  have c2: "\<lceil>(3::real) / 2\<rceil> = 2" and f2: "\<lfloor>(3::real) / 2\<rfloor> = 1"
    by linarith+
  have r2: "replicate 2 (Scalar 0) = [Scalar 0, Scalar 0]"
    by (simp add: numeral_2_eq_2)
  from Pad_symmetric_to_size [OF h z l, of "Arr [Arr [Scalar 3, Scalar 4]]"] d
  have a: "Pad_call [1, 5] [PTensor (Arr [Arr [Scalar 1, Scalar 2]]), PTensor (Arr [Arr [Scalar 3, Scalar 4]])] =
     Inr (PTuple [PTensor (Arr [Arr [Scalar 0, Scalar 0, Scalar 1, Scalar 2, Scalar 0]]),
                  PTensor (Arr [Arr [Scalar 0, Scalar 0, Scalar 3, Scalar 4, Scalar 0]])])"
    by (simp add: Let_def c2 f2 r2)
  have h3: "has_shape [3, 5, 5] (zeros [3, 5, 5])"
    by (rule has_shape_zeros)
  have z3: "0 \<notin> set [3, 5, 5 :: nat]" by simp
  have l3: "length [3, 5, 5 :: nat] \<le> length [3, 8, 8 :: int]" by simp
  from Pad_symmetric_to_size [OF h3 z3 l3]
  have b: "Pad_call [3, 8, 8] [PTensor (zeros [3, 5, 5])] =
     Inr (PTensor (pad_nd [(0, 0), (2, 1), (2, 1)] (zeros [3, 5, 5])))"
    and c: "has_shape [3, 8, 8] (pad_nd [(0, 0), (2, 1), (2, 1)] (zeros [3, 5, 5]))"
    by (simp_all add: Let_def c2 f2 del: zeros.simps pad_nd.simps has_shape.simps)
  from h z l d a h3 b c show ?thesis by blast
qed

end
